theory Spec2Isabelle
  imports Complex_Main
begin

section \<open>JavaScript values\<close>

text \<open>
  The client (\<^verbatim>\<open>src/game.js\<close>, class \<^verbatim>\<open>GameClient\<close>) stores whatever
  \<^verbatim>\<open>JSON.parse\<close> delivers, so the store is modelled over untyped values: the JSON
  values, and \<^verbatim>\<open>undefined\<close> for what a missing property reads as.

  Conventions of the model:
  \<^item> a number is \<^verbatim>\<open>NaN\<close>, an infinity, or a rational; arithmetic on rationals is
    exact (the rounding of IEEE doubles and the sign of zero are not modelled);
  \<^item> an object is its list of own properties in insertion order (the reordering of
    integer-like keys, which only permutes iterations, is not modelled); properties
    inherited from a prototype (\<^verbatim>\<open>constructor\<close>, \<^verbatim>\<open>toString\<close>, ...) are not
    modelled: a lookup sees own properties only;
  \<^item> a string is a list of characters, one per code unit;
  \<^item> where the result of an operation depends on a part of the language that is not
    modelled (printing a non-integral number as a property key, reading a string as a
    number, writing a property of an array or of a primitive value), the operation
    ends with \<open>ModelLimit\<close>, which is kept apart from the exceptions of the program:
    the client returned with it is the client at the point where the model stops, and
    says nothing of what the program does from there.
\<close>

datatype jsnum = NaN | PInf | NInf | Fin rat

datatype jsval =
    JUndefined
  | JNull
  | JBool bool
  | JNum jsnum
  | JStr string
  | JArr "jsval list"
  | JObj "(string \<times> jsval) list"

datatype exn = TypeError | SyntaxError | ModelLimit

text \<open>Truthiness, as \<^verbatim>\<open>if (v)\<close>, \<^verbatim>\<open>!v\<close> and \<^verbatim>\<open>v || w\<close> test it.\<close>

fun truthy :: "jsval \<Rightarrow> bool" where
  "truthy JUndefined = False"
| "truthy JNull = False"
| "truthy (JBool b) = b"
| "truthy (JNum NaN) = False"
| "truthy (JNum PInf) = True"
| "truthy (JNum NInf) = True"
| "truthy (JNum (Fin r)) = (r \<noteq> 0)"
| "truthy (JStr s) = (s \<noteq> [])"
| "truthy (JArr xs) = True"
| "truthy (JObj kvs) = True"

text \<open>\<^verbatim>\<open>a || b\<close>\<close>

definition jsor :: "jsval \<Rightarrow> jsval \<Rightarrow> jsval" where
  "jsor a b = (if truthy a then a else b)"

subsection \<open>Property keys\<close>

text \<open>The decimal numeral of a natural number: the canonical form of an array index.\<close>

fun dec :: "nat \<Rightarrow> string" where
  "dec n = (if n < 10 then [''0123456789'' ! n] else dec (n div 10) @ [''0123456789'' ! (n mod 10)])"

declare dec.simps [simp del]

text \<open>
  \<^verbatim>\<open>ToPropertyKey\<close>: the string under which \<^verbatim>\<open>o[v]\<close> looks \<open>v\<close> up. Integers print
  in decimal below \<open>10^21\<close>; larger and non-integral numbers, and arrays, are beyond
  the model.
\<close>

fun toKey :: "jsval \<Rightarrow> exn + string" where
  "toKey JUndefined = Inr ''undefined''"
| "toKey JNull = Inr ''null''"
| "toKey (JBool b) = Inr (if b then ''true'' else ''false'')"
| "toKey (JNum NaN) = Inr ''NaN''"
| "toKey (JNum PInf) = Inr ''Infinity''"
| "toKey (JNum NInf) = Inr ''-Infinity''"
| "toKey (JNum (Fin r)) =
     (if r = of_int \<lfloor>r\<rfloor> \<and> \<bar>r\<bar> < 10 ^ 21
      then Inr (if r < 0 then CHR ''-'' # dec (nat (- \<lfloor>r\<rfloor>)) else dec (nat \<lfloor>r\<rfloor>))
      else Inl ModelLimit)"
| "toKey (JStr s) = Inr s"
| "toKey (JArr xs) = Inl ModelLimit"
| "toKey (JObj kvs) = Inr ''[object Object]''"

subsection \<open>Reading properties\<close>

text \<open>
  The own enumerable properties of a value, as \<^verbatim>\<open>Object.keys\<close>,
  \<^verbatim>\<open>Object.values\<close> and \<^verbatim>\<open>Object.assign\<close> enumerate them: the elements of an
  array and the characters of a string under their indices, nothing for the other
  primitives.
\<close>

fun ownEntries :: "jsval \<Rightarrow> (string \<times> jsval) list" where
  "ownEntries (JObj kvs) = kvs"
| "ownEntries (JArr xs) = zip (map dec [0..<length xs]) xs"
| "ownEntries (JStr s) = zip (map dec [0..<length s]) (map (\<lambda>ch. JStr [ch]) s)"
| "ownEntries v = []"

text \<open>
  \<^verbatim>\<open>v[k]\<close> and \<^verbatim>\<open>v.k\<close> for a key that is already a string. Reading a property of
  \<^verbatim>\<open>undefined\<close> or \<^verbatim>\<open>null\<close> throws; a missing property reads as
  \<^verbatim>\<open>undefined\<close>; arrays and strings also have a \<^verbatim>\<open>length\<close>.
\<close>

fun getProp :: "jsval \<Rightarrow> string \<Rightarrow> exn + jsval" where
  "getProp JUndefined k = Inl TypeError"
| "getProp JNull k = Inl TypeError"
| "getProp (JBool b) k = Inr JUndefined"
| "getProp (JNum n) k = Inr JUndefined"
| "getProp (JObj kvs) k = Inr (case map_of kvs k of Some v \<Rightarrow> v | None \<Rightarrow> JUndefined)"
| "getProp (JArr xs) k =
     Inr (if k = ''length'' then JNum (Fin (of_nat (length xs)))
          else case map_of (ownEntries (JArr xs)) k of Some v \<Rightarrow> v | None \<Rightarrow> JUndefined)"
| "getProp (JStr s) k =
     Inr (if k = ''length'' then JNum (Fin (of_nat (length s)))
          else case map_of (ownEntries (JStr s)) k of Some v \<Rightarrow> v | None \<Rightarrow> JUndefined)"

text \<open>\<^verbatim>\<open>v[w]\<close> for a computed key \<open>w\<close>.\<close>

definition getAt :: "jsval \<Rightarrow> jsval \<Rightarrow> exn + jsval" where
  "getAt v w =
     (case v of
        JUndefined \<Rightarrow> Inl TypeError
      | JNull \<Rightarrow> Inl TypeError
      | _ \<Rightarrow> (case toKey w of Inl e \<Rightarrow> Inl e | Inr k \<Rightarrow> getProp v k))"

subsection \<open>Numbers\<close>

text \<open>
  \<^verbatim>\<open>ToNumber\<close>, as the operators \<^verbatim>\<open>-\<close> and \<^verbatim>\<open>/\<close> and \<^verbatim>\<open>Math.round\<close>
  apply it to an operand. A plain object converts to \<^verbatim>\<open>NaN\<close>; reading a string or
  an array as a number is beyond the model.
\<close>

fun toNumber :: "jsval \<Rightarrow> exn + jsnum" where
  "toNumber JUndefined = Inr NaN"
| "toNumber JNull = Inr (Fin 0)"
| "toNumber (JBool b) = Inr (Fin (if b then 1 else 0))"
| "toNumber (JNum n) = Inr n"
| "toNumber (JStr s) = Inl ModelLimit"
| "toNumber (JArr xs) = Inl ModelLimit"
| "toNumber (JObj kvs) = Inr NaN"

fun nneg :: "jsnum \<Rightarrow> jsnum" where
  "nneg NaN = NaN"
| "nneg PInf = NInf"
| "nneg NInf = PInf"
| "nneg (Fin a) = Fin (- a)"

fun nsub :: "jsnum \<Rightarrow> jsnum \<Rightarrow> jsnum" where
  "nsub (Fin a) (Fin b) = Fin (a - b)"
| "nsub NaN b = NaN"
| "nsub a NaN = NaN"
| "nsub PInf PInf = NaN"
| "nsub NInf NInf = NaN"
| "nsub PInf b = PInf"
| "nsub NInf b = NInf"
| "nsub (Fin a) PInf = NInf"
| "nsub (Fin a) NInf = PInf"

text \<open>
  Division is only ever applied to operands that are not negative (pixel sizes and
  their quotients), so dividing by zero gives \<^verbatim>\<open>+Infinity\<close> or, for \<open>0/0\<close>,
  \<^verbatim>\<open>NaN\<close>; the sign of a zero divisor is not modelled.
\<close>

fun ndiv :: "jsnum \<Rightarrow> jsnum \<Rightarrow> jsnum" where
  "ndiv (Fin a) (Fin b) =
     (if b \<noteq> 0 then Fin (a / b) else if a = 0 then NaN else if 0 < a then PInf else NInf)"
| "ndiv NaN b = NaN"
| "ndiv a NaN = NaN"
| "ndiv (Fin a) PInf = Fin 0"
| "ndiv (Fin a) NInf = Fin 0"
| "ndiv PInf (Fin b) = (if 0 \<le> b then PInf else NInf)"
| "ndiv NInf (Fin b) = (if 0 \<le> b then NInf else PInf)"
| "ndiv a b = NaN"

text \<open>\<^verbatim>\<open>a <= b\<close> on numbers: false as soon as one side is \<^verbatim>\<open>NaN\<close>.\<close>

fun nle :: "jsnum \<Rightarrow> jsnum \<Rightarrow> bool" where
  "nle NaN b = False"
| "nle a NaN = False"
| "nle NInf b = True"
| "nle a PInf = True"
| "nle (Fin a) (Fin b) = (a \<le> b)"
| "nle a b = False"

text \<open>\<^verbatim>\<open>a >= b\<close>\<close>

definition nge :: "jsnum \<Rightarrow> jsnum \<Rightarrow> bool" where
  "nge a b = nle b a"

text \<open>\<^verbatim>\<open>Math.min\<close> and \<^verbatim>\<open>Math.max\<close> of two numbers: \<^verbatim>\<open>NaN\<close> if either is.\<close>

definition nmin :: "jsnum \<Rightarrow> jsnum \<Rightarrow> jsnum" where
  "nmin a b = (if a = NaN \<or> b = NaN then NaN else if nle a b then a else b)"

definition nmax :: "jsnum \<Rightarrow> jsnum \<Rightarrow> jsnum" where
  "nmax a b = (if a = NaN \<or> b = NaN then NaN else if nle a b then b else a)"

text \<open>\<^verbatim>\<open>Math.round\<close>: the nearest integer, halves upwards.\<close>

fun nround :: "jsnum \<Rightarrow> jsnum" where
  "nround (Fin a) = Fin (of_int \<lfloor>a + 1 / 2\<rfloor>)"
| "nround a = a"


subsection \<open>Writing properties\<close>

text \<open>
  An assignment to a property replaces the value of an existing key in place and
  appends a new key at the end.
\<close>

fun upd :: "string \<Rightarrow> jsval \<Rightarrow> (string \<times> jsval) list \<Rightarrow> (string \<times> jsval) list" where
  "upd k v [] = [(k, v)]"
| "upd k v (p # ps) = (if fst p = k then (k, v) # ps else p # upd k v ps)"

text \<open>
  \<^verbatim>\<open>o[k] = v\<close>, giving the container after the write. The containers of the client
  are the objects of a message; writing to \<^verbatim>\<open>undefined\<close> or \<^verbatim>\<open>null\<close> throws.
  The messages are parsed afresh and never share an object, and the client never
  writes a field of a stored player or avatar, so values stand for the objects.
\<close>

fun setProp :: "jsval \<Rightarrow> string \<Rightarrow> jsval \<Rightarrow> exn + jsval" where
  "setProp (JObj kvs) k v = Inr (JObj (upd k v kvs))"
| "setProp JUndefined k v = Inl TypeError"
| "setProp JNull k v = Inl TypeError"
| "setProp other k v = Inl ModelLimit"

text \<open>\<^verbatim>\<open>delete o[k]\<close>\<close>

fun deleteProp :: "jsval \<Rightarrow> string \<Rightarrow> exn + jsval" where
  "deleteProp (JObj kvs) k = Inr (JObj (filter (\<lambda>p. fst p \<noteq> k) kvs))"
| "deleteProp JUndefined k = Inl TypeError"
| "deleteProp JNull k = Inl TypeError"
| "deleteProp other k = Inl ModelLimit"

text \<open>
  \<^verbatim>\<open>Object.assign(target, source)\<close>: each own property of the source is assigned to
  the target, in order. A source that is \<^verbatim>\<open>undefined\<close> or \<^verbatim>\<open>null\<close> has no
  properties and is skipped; such a target throws.
\<close>

fun assign :: "jsval \<Rightarrow> jsval \<Rightarrow> exn + jsval" where
  "assign (JObj kvs) source = Inr (JObj (fold (\<lambda>(k, v). upd k v) (ownEntries source) kvs))"
| "assign JUndefined source = Inl TypeError"
| "assign JNull source = Inl TypeError"
| "assign other source = Inl ModelLimit"

text \<open>\<^verbatim>\<open>Object.values(v)\<close>, which throws on \<^verbatim>\<open>undefined\<close> and \<^verbatim>\<open>null\<close>.\<close>

fun ownValues :: "jsval \<Rightarrow> exn + jsval list" where
  "ownValues JUndefined = Inl TypeError"
| "ownValues JNull = Inl TypeError"
| "ownValues v = Inr (map snd (ownEntries v))"

text \<open>Sequencing of expressions that may throw.\<close>

definition bnd :: "exn + 'a \<Rightarrow> ('a \<Rightarrow> exn + 'b) \<Rightarrow> exn + 'b" where
  "bnd r f = (case r of Inl e \<Rightarrow> Inl e | Inr x \<Rightarrow> f x)"

section \<open>The client\<close>

text \<open>
  A decoded image: what \<^verbatim>\<open>new Image()\<close> is once its \<^verbatim>\<open>onload\<close> has fired, with
  the source it was given and its natural size.
\<close>

datatype image = Image (imgSrc: jsval) (imgWidth: nat) (imgHeight: nat)

datatype readyState = CONNECTING | OPEN | CLOSING | CLOSED

text \<open>
  What the client does to the outside, in the order it does it: the console, the
  socket, the status bar, the image loads it starts and the calls on the canvas
  context. The elements of the status bar are taken to exist, and the canvas calls
  not to throw (no image in the broken state).
\<close>

datatype effect =
    ConsoleLog string
  | ConsoleError string jsval
  | SetConnectionStatus string
  | Send jsval
  | SetWorldInfo rat rat
  | SetPlayerCount nat
  | SetPlayerPosition jsnum jsnum
  | LoadImage string string nat jsval
  | ClearRect nat nat
  | DrawWorld image jsnum jsnum nat nat
  | CtxSave
  | CtxScaleFlip
  | DrawImage image jsnum jsnum jsnum jsnum
  | CtxRestore
  | SetTextStyle
  | StrokeText jsval jsnum jsnum
  | FillText jsval jsnum jsnum

text \<open>
  The fields of \<^verbatim>\<open>GameClient\<close>. \<open>avatarImages\<close> is built by the client itself:
  per avatar name, per direction, the array of decoded frames, with holes where a
  frame has not arrived. \<open>canvasWidth\<close> and \<open>canvasHeight\<close> are
  \<^verbatim>\<open>this.canvas.width\<close> and \<^verbatim>\<open>this.canvas.height\<close>; \<open>socket\<close> is the
  \<^verbatim>\<open>readyState\<close> of the socket, if there is one; \<open>effects\<close> is the trace of
  effects so far.
\<close>

record client =
  worldImage :: "image option"
  worldWidth :: rat
  worldHeight :: rat
  myPlayerId :: jsval
  players :: jsval
  avatars :: jsval
  avatarImages :: "string \<rightharpoonup> (string \<rightharpoonup> image option list)"
  cameraX :: jsnum
  cameraY :: jsnum
  avatarSize :: rat
  canvasWidth :: nat
  canvasHeight :: nat
  socket :: "readyState option"
  keysPressed :: "string \<rightharpoonup> bool"
  effects :: "effect list"

text \<open>
  A method runs on the client and ends normally or by an exception; what it did
  before throwing stays done.
\<close>

type_synonym proc = "client \<Rightarrow> exn option \<times> client"

definition skip :: proc where
  "skip c = (None, c)"

definition throw :: "exn \<Rightarrow> proc" where
  "throw e c = (Some e, c)"

definition modify :: "(client \<Rightarrow> client) \<Rightarrow> proc" where
  "modify f c = (None, f c)"

definition seq :: "proc \<Rightarrow> proc \<Rightarrow> proc" where
  "seq p q c = (case p c of (None, c') \<Rightarrow> q c' | (Some e, c') \<Rightarrow> (Some e, c'))"

definition letv :: "exn + 'a \<Rightarrow> ('a \<Rightarrow> proc) \<Rightarrow> proc" where
  "letv r f c = (case r of Inl e \<Rightarrow> (Some e, c) | Inr x \<Rightarrow> f x c)"

fun forEach :: "('a \<Rightarrow> proc) \<Rightarrow> 'a list \<Rightarrow> proc" where
  "forEach f [] c = (None, c)"
| "forEach f (x # xs) c = (case f x c of (None, c') \<Rightarrow> forEach f xs c' | (Some e, c') \<Rightarrow> (Some e, c'))"

definition emit :: "effect \<Rightarrow> proc" where
  "emit e = modify (\<lambda>c. c\<lparr>effects := effects c @ [e]\<rparr>)"

subsection \<open>Camera\<close>

text \<open>\<^verbatim>\<open>updateCamera\<close> (lines 225-237).\<close>

definition updateCamera :: proc where
  "updateCamera c =
     (if \<not> truthy (myPlayerId c) then skip c
      else letv (getAt (players c) (myPlayerId c)) (\<lambda>myPlayer.
        if \<not> truthy myPlayer then skip
        else
          seq (letv (bnd (getProp myPlayer ''x'') toNumber) (\<lambda>x.
                 modify (\<lambda>c. c\<lparr>cameraX := nsub x (ndiv (Fin (of_nat (canvasWidth c))) (Fin 2))\<rparr>)))
         (seq (letv (bnd (getProp myPlayer ''y'') toNumber) (\<lambda>y.
                 modify (\<lambda>c. c\<lparr>cameraY := nsub y (ndiv (Fin (of_nat (canvasHeight c))) (Fin 2))\<rparr>)))
         (seq (modify (\<lambda>c. c\<lparr>cameraX :=
                 nmax (Fin 0) (nmin (cameraX c) (Fin (worldWidth c - of_nat (canvasWidth c))))\<rparr>))
              (modify (\<lambda>c. c\<lparr>cameraY :=
                 nmax (Fin 0) (nmin (cameraY c) (Fin (worldHeight c - of_nat (canvasHeight c))))\<rparr>))))) c)"

text \<open>\<^verbatim>\<open>worldToScreen\<close> (lines 239-244).\<close>

definition worldToScreen :: "client \<Rightarrow> jsval \<Rightarrow> jsval \<Rightarrow> exn + jsnum \<times> jsnum" where
  "worldToScreen c worldX worldY =
     bnd (toNumber worldX) (\<lambda>wx. bnd (toNumber worldY) (\<lambda>wy.
       Inr (nsub wx (cameraX c), nsub wy (cameraY c))))"

text \<open>\<^verbatim>\<open>isVisible\<close> (lines 246-252).\<close>

definition isVisible :: "client \<Rightarrow> jsval \<Rightarrow> jsval \<Rightarrow> exn + bool" where
  "isVisible c worldX worldY =
     bnd (worldToScreen c worldX worldY) (\<lambda>(sx, sy).
       Inr (nge sx (Fin (- avatarSize c)) \<and>
            nle sx (Fin (of_nat (canvasWidth c) + avatarSize c)) \<and>
            nge sy (Fin (- avatarSize c)) \<and>
            nle sy (Fin (of_nat (canvasHeight c) + avatarSize c))))"

subsection \<open>Sprites\<close>

text \<open>
  What \<^verbatim>\<open>frames[k]\<close> reads from an array of decoded frames: a frame, the length
  of the array (under the key \<^verbatim>\<open>length\<close>), or \<^verbatim>\<open>undefined\<close> for a hole and for
  any other key.
\<close>

datatype slot = SUndefined | SLength nat | SImage image

definition frameAt :: "image option list \<Rightarrow> string \<Rightarrow> slot" where
  "frameAt frames k =
     (if k = ''length'' then SLength (length frames)
      else case map_of (zip (map dec [0..<length frames]) frames) k of
             Some (Some img) \<Rightarrow> SImage img
           | _ \<Rightarrow> SUndefined)"

fun slotTruthy :: "slot \<Rightarrow> bool" where
  "slotTruthy SUndefined = False"
| "slotTruthy (SLength n) = (n \<noteq> 0)"
| "slotTruthy (SImage img) = True"

text \<open>\<^verbatim>\<open>frames[index] = img\<close>: a write past the end extends the array with holes.\<close>

definition setFrame :: "image option list \<Rightarrow> nat \<Rightarrow> image \<Rightarrow> image option list" where
  "setFrame frames index img =
     (if index < length frames then frames[index := Some img]
      else frames @ replicate (index - length frames) None @ [Some img])"

text \<open>
  \<^verbatim>\<open>loadAvatarImage\<close> (lines 182-200). \<open>loadDirection\<close> is the body of its loop
  over the three stored directions: it starts one load per frame of the direction.
  What the \<^verbatim>\<open>onload\<close> of a started load does is \<open>onFrameLoad\<close> below.
\<close>

definition loadDirection :: "jsval \<Rightarrow> string \<Rightarrow> string \<Rightarrow> proc" where
  "loadDirection avatar avatarKey direction =
     seq (modify (\<lambda>c. c\<lparr>avatarImages := (avatarImages c)(avatarKey \<mapsto>
            (case avatarImages c avatarKey of None \<Rightarrow> Map.empty | Some dirs \<Rightarrow> dirs)(direction \<mapsto> []))\<rparr>))
         (letv (bnd (getProp avatar ''frames'') (\<lambda>frames. getProp frames direction)) (\<lambda>fs.
            case fs of
              JArr xs \<Rightarrow> forEach (\<lambda>(index, frameData). emit (LoadImage avatarKey direction index frameData))
                           (zip [0..<length xs] xs)
            | _ \<Rightarrow> throw TypeError))"

definition loadAvatarImage :: "jsval \<Rightarrow> proc" where
  "loadAvatarImage avatar =
     letv (bnd (getProp avatar ''name'') toKey) (\<lambda>avatarKey c.
       if avatarImages c avatarKey \<noteq> None then skip c
       else seq (modify (\<lambda>c. c\<lparr>avatarImages := (avatarImages c)(avatarKey \<mapsto> Map.empty)\<rparr>))
                (forEach (loadDirection avatar avatarKey) [''north'', ''south'', ''east'']) c)"

text \<open>\<^verbatim>\<open>loadAvatarImages\<close> (lines 176-180).\<close>

definition loadAvatarImages :: proc where
  "loadAvatarImages c = letv (ownValues (avatars c)) (forEach loadAvatarImage) c"

subsection \<open>Rendering\<close>

text \<open>
  Lines 262-275 of \<^verbatim>\<open>drawAvatar\<close>: the frame for the player's facing and
  animation frame, with \<^verbatim>\<open>flipHorizontal\<close>. \<open>Inr None\<close> is the early
  \<^verbatim>\<open>return\<close> of line 273. It is reached once line 259 has found the avatar's entry
  \<open>dirs\<close> in \<open>avatarImages\<close>.
\<close>

definition resolveFrame :: "(string \<rightharpoonup> image option list) \<Rightarrow> jsval \<Rightarrow> exn + (slot \<times> bool) option" where
  "resolveFrame dirs player =
     bnd (getProp player ''facing'') (\<lambda>facing.
     bnd (getProp player ''animationFrame'') (\<lambda>animationFrame.
       let frameIndex = jsor animationFrame (JNum (Fin 0));
           flipHorizontal = (facing = JStr ''west'');
           direction = (if facing = JStr ''west'' then JStr ''east'' else facing)
       in bnd (toKey direction) (\<lambda>d.
            case dirs d of
              None \<Rightarrow> Inr None
            | Some frames \<Rightarrow>
                bnd (toKey frameIndex) (\<lambda>i.
                  if \<not> slotTruthy (frameAt frames i) then Inr None
                  else Inr (Some (frameAt frames i, flipHorizontal))))))"

text \<open>
  Lines 277-310 of \<^verbatim>\<open>drawAvatar\<close>: the sprite, scaled to \<open>avatarSize\<close> and
  anchored at the feet, then the username. When \<open>img\<close> is not an image (the
  length of the array, read under the key \<^verbatim>\<open>length\<close>), \<^verbatim>\<open>drawImage\<close> throws.
\<close>

definition paintAvatar :: "jsval \<Rightarrow> jsnum \<times> jsnum \<Rightarrow> slot \<Rightarrow> bool \<Rightarrow> proc" where
  "paintAvatar player screen img flipHorizontal c =
     (let aspectRatio = (case img of SImage i \<Rightarrow> ndiv (Fin (of_nat (imgWidth i))) (Fin (of_nat (imgHeight i)))
                                   | _ \<Rightarrow> NaN);
          avatarWidth = Fin (avatarSize c);
          avatarHeight = ndiv (Fin (avatarSize c)) aspectRatio;
          x = nsub (fst screen) (ndiv avatarWidth (Fin 2));
          y = nsub (snd screen) avatarHeight;
          textX = fst screen;
          textY = nsub y (Fin 5)
      in seq (emit CtxSave)
        (seq (case img of
                SImage i \<Rightarrow>
                  (if flipHorizontal
                   then seq (emit CtxScaleFlip)
                            (emit (DrawImage i (nsub (nneg x) avatarWidth) y avatarWidth avatarHeight))
                   else emit (DrawImage i x y avatarWidth avatarHeight))
              | _ \<Rightarrow> (if flipHorizontal then seq (emit CtxScaleFlip) (throw TypeError)
                      else throw TypeError))
        (seq (emit CtxRestore)
        (seq (emit SetTextStyle)
        (letv (getProp player ''username'') (\<lambda>username.
           seq (emit (StrokeText username textX textY))
               (emit (FillText username textX textY))))))) c)"

text \<open>\<^verbatim>\<open>drawAvatar\<close> (lines 254-311).\<close>

definition drawAvatar :: "jsval \<Rightarrow> proc" where
  "drawAvatar player c =
     letv (getProp player ''x'') (\<lambda>px.
     letv (getProp player ''y'') (\<lambda>py.
     letv (isVisible c px py) (\<lambda>visible.
       if \<not> visible then skip
       else
         letv (worldToScreen c px py) (\<lambda>screen.
         letv (getProp player ''avatar'') (\<lambda>avatarName.
         letv (getAt (avatars c) avatarName) (\<lambda>avatar.
           if \<not> truthy avatar then skip
           else
             letv (toKey avatarName) (\<lambda>avatarKey.
               case avatarImages c avatarKey of
                 None \<Rightarrow> skip
               | Some dirs \<Rightarrow>
                   letv (resolveFrame dirs player) (\<lambda>r.
                     case r of
                       None \<Rightarrow> skip
                     | Some (img, flipHorizontal) \<Rightarrow> paintAvatar player screen img flipHorizontal)))))))) c"

text \<open>\<^verbatim>\<open>draw\<close> (lines 313-330).\<close>

definition draw :: proc where
  "draw c =
     (case worldImage c of
        None \<Rightarrow> skip c
      | Some world \<Rightarrow>
          seq (emit (ClearRect (canvasWidth c) (canvasHeight c)))
         (seq (emit (DrawWorld world (cameraX c) (cameraY c) (canvasWidth c) (canvasHeight c)))
              (letv (ownValues (players c)) (forEach drawAvatar))) c)"

text \<open>
  The \<^verbatim>\<open>onload\<close> handler of the image started for frame \<open>index\<close> of a direction
  (lines 193-196), called with the decoded image.
\<close>

definition onFrameLoad :: "string \<Rightarrow> string \<Rightarrow> nat \<Rightarrow> image \<Rightarrow> proc" where
  "onFrameLoad avatarKey direction index img c =
     (case avatarImages c avatarKey of
        None \<Rightarrow> throw TypeError c
      | Some dirs \<Rightarrow>
          (case dirs direction of
             None \<Rightarrow> throw TypeError c
           | Some frames \<Rightarrow>
               seq (modify (\<lambda>c. c\<lparr>avatarImages :=
                      (avatarImages c)(avatarKey \<mapsto> dirs(direction \<mapsto> setFrame frames index img))\<rparr>))
                   draw c))"

subsection \<open>Status bar\<close>

text \<open>\<^verbatim>\<open>updateUI\<close> (lines 208-223).\<close>

definition updateUI :: proc where
  "updateUI c =
     seq (emit (SetWorldInfo (worldWidth c) (worldHeight c)))
    (seq (letv (ownValues (players c)) (\<lambda>vs. emit (SetPlayerCount (length vs))))
         (if \<not> truthy (myPlayerId c) then emit (SetPlayerPosition (Fin 0) (Fin 0))
          else letv (getAt (players c) (myPlayerId c)) (\<lambda>myPlayer.
            if \<not> truthy myPlayer then emit (SetPlayerPosition (Fin 0) (Fin 0))
            else letv (bnd (getProp myPlayer ''x'') toNumber) (\<lambda>x.
                 letv (bnd (getProp myPlayer ''y'') toNumber) (\<lambda>y.
                   emit (SetPlayerPosition (nround x) (nround y))))))) c"

subsection \<open>Messages from the server\<close>

text \<open>\<^verbatim>\<open>handleServerMessage\<close> (lines 137-174).\<close>

definition handleServerMessage :: "jsval \<Rightarrow> proc" where
  "handleServerMessage message =
     letv (getProp message ''action'') (\<lambda>action.
       if action = JStr ''join_game'' then
         letv (getProp message ''success'') (\<lambda>success.
           if truthy success then
             seq (letv (getProp message ''playerId'') (\<lambda>v. modify (\<lambda>c. c\<lparr>myPlayerId := v\<rparr>)))
            (seq (letv (getProp message ''players'') (\<lambda>v. modify (\<lambda>c. c\<lparr>players := v\<rparr>)))
            (seq (letv (getProp message ''avatars'') (\<lambda>v. modify (\<lambda>c. c\<lparr>avatars := v\<rparr>)))
            (seq loadAvatarImages
            (seq updateCamera
            (seq updateUI draw)))))
           else
             letv (getProp message ''error'') (\<lambda>err. emit (ConsoleError ''Failed to join game:'' err)))
       else if action = JStr ''player_joined'' then
         seq (letv (getProp message ''player'') (\<lambda>player.
                letv (bnd (getProp player ''id'') toKey) (\<lambda>k c.
                  letv (setProp (players c) k player) (\<lambda>ps. modify (\<lambda>c. c\<lparr>players := ps\<rparr>)) c)))
        (seq (letv (getProp message ''avatar'') (\<lambda>avatar.
                letv (bnd (getProp avatar ''name'') toKey) (\<lambda>k c.
                  letv (setProp (avatars c) k avatar) (\<lambda>avs. modify (\<lambda>c. c\<lparr>avatars := avs\<rparr>)) c)))
        (seq (letv (getProp message ''avatar'') loadAvatarImage)
        (seq updateUI draw)))
       else if action = JStr ''players_moved'' then
         seq (letv (getProp message ''players'') (\<lambda>source c.
                letv (assign (players c) source) (\<lambda>ps. modify (\<lambda>c. c\<lparr>players := ps\<rparr>)) c))
        (seq updateCamera
        (seq updateUI draw))
       else if action = JStr ''player_left'' then
         seq (letv (getProp message ''playerId'') (\<lambda>playerId.
                letv (toKey playerId) (\<lambda>k c.
                  letv (deleteProp (players c) k) (\<lambda>ps. modify (\<lambda>c. c\<lparr>players := ps\<rparr>)) c)))
        (seq updateUI draw)
       else skip)"

text \<open>
  The \<^verbatim>\<open>onmessage\<close> handler of the socket (lines 70-73). \<^verbatim>\<open>JSON.parse\<close> belongs
  to the platform: the handler is given what it makes of \<^verbatim>\<open>event.data\<close>, the
  parsed value or the \<^verbatim>\<open>SyntaxError\<close> it throws.
\<close>

definition onmessage :: "exn + jsval \<Rightarrow> proc" where
  "onmessage parsed = letv parsed handleServerMessage"

subsection \<open>Connection and keyboard\<close>

text \<open>\<^verbatim>\<open>joinGame\<close> (lines 86-93).\<close>

definition joinGame :: proc where
  "joinGame = emit (Send (JObj [(''action'', JStr ''join_game''), (''username'', JStr ''May'')]))"

text \<open>\<^verbatim>\<open>updateConnectionStatus\<close> (lines 202-206).\<close>

definition updateConnectionStatus :: "string \<Rightarrow> proc" where
  "updateConnectionStatus status = emit (SetConnectionStatus status)"

text \<open>The socket opens, and its \<^verbatim>\<open>onopen\<close> handler runs (lines 64-68).\<close>

definition onopen :: proc where
  "onopen =
     seq (modify (\<lambda>c. c\<lparr>socket := Some OPEN\<rparr>))
    (seq (emit (ConsoleLog ''Connected to game server''))
    (seq (updateConnectionStatus ''connected'') joinGame))"

text \<open>The socket closes, and its \<^verbatim>\<open>onclose\<close> handler runs (lines 75-78).\<close>

definition onclose :: proc where
  "onclose =
     seq (modify (\<lambda>c. c\<lparr>socket := Some CLOSED\<rparr>))
    (seq (emit (ConsoleLog ''Disconnected from game server''))
         (updateConnectionStatus ''disconnected''))"

text \<open>\<^verbatim>\<open>handleMovement\<close> (lines 107-135).\<close>

definition handleMovement :: proc where
  "handleMovement c =
     (if socket c \<noteq> Some OPEN then skip c
      else
        let direction =
              (if keysPressed c ''ArrowUp'' = Some True then Some ''up''
               else if keysPressed c ''ArrowDown'' = Some True then Some ''down''
               else if keysPressed c ''ArrowLeft'' = Some True then Some ''left''
               else if keysPressed c ''ArrowRight'' = Some True then Some ''right''
               else None)
        in case direction of
             Some d \<Rightarrow> emit (Send (JObj [(''action'', JStr ''move''), (''direction'', JStr d)])) c
           | None \<Rightarrow> emit (Send (JObj [(''action'', JStr ''stop'')])) c)"

text \<open>The \<^verbatim>\<open>keydown\<close> and \<^verbatim>\<open>keyup\<close> listeners (lines 96-104), given \<^verbatim>\<open>event.code\<close>.\<close>

definition keydown :: "string \<Rightarrow> proc" where
  "keydown code = seq (modify (\<lambda>c. c\<lparr>keysPressed := (keysPressed c)(code \<mapsto> True)\<rparr>)) handleMovement"

definition keyup :: "string \<Rightarrow> proc" where
  "keyup code = seq (modify (\<lambda>c. c\<lparr>keysPressed := (keysPressed c)(code \<mapsto> False)\<rparr>)) handleMovement"

subsection \<open>Construction\<close>

text \<open>
  The client as the constructor and \<^verbatim>\<open>init\<close> leave it (lines 3-37), for a canvas of
  the given size: the world image requested, the socket connecting, the status bar
  written once.
\<close>

definition newGameClient :: "nat \<Rightarrow> nat \<Rightarrow> client" where
  "newGameClient w h =
     snd (updateUI
       \<lparr> worldImage = Some (Image (JStr ''world.jpg'') 0 0),
         worldWidth = 2048,
         worldHeight = 2048,
         myPlayerId = JNull,
         players = JObj [],
         avatars = JObj [],
         avatarImages = Map.empty,
         cameraX = Fin 0,
         cameraY = Fin 0,
         avatarSize = 48,
         canvasWidth = w,
         canvasHeight = h,
         socket = Some CONNECTING,
         keysPressed = Map.empty,
         effects = [] \<rparr>)"

subsection \<open>Sessions\<close>

text \<open>
  The remaining callbacks the client registers: the \<^verbatim>\<open>resize\<close> listener (lines
  45-50), called with the size the canvas takes; the \<^verbatim>\<open>onload\<close> of the world
  image (lines 55-57), called with its natural size; the \<^verbatim>\<open>onerror\<close> of the socket
  (lines 80-83).
\<close>

definition onresize :: "nat \<Rightarrow> nat \<Rightarrow> proc" where
  "onresize w h =
     seq (modify (\<lambda>c. c\<lparr>canvasWidth := w, canvasHeight := h\<rparr>))
    (seq updateCamera draw)"

definition onWorldLoad :: "nat \<Rightarrow> nat \<Rightarrow> proc" where
  "onWorldLoad w h =
     seq (modify (\<lambda>c. c\<lparr>worldImage := Some (Image (JStr ''world.jpg'') w h)\<rparr>)) draw"

definition onerror :: "jsval \<Rightarrow> proc" where
  "onerror error =
     seq (emit (ConsoleError ''WebSocket error:'' error))
         (updateConnectionStatus ''disconnected'')"

text \<open>
  A session is a sequence of callbacks, each run to completion on the client the
  previous one left. An exception that escapes a callback ends that callback only:
  the next one runs on the client as it was when the exception was thrown.
\<close>

datatype event =
    Resize nat nat
  | WorldLoaded nat nat
  | SocketOpen
  | SocketMessage "exn + jsval"
  | SocketClose
  | SocketError jsval
  | KeyDown string
  | KeyUp string
  | FrameLoaded string string nat image

fun handle :: "event \<Rightarrow> proc" where
  "handle (Resize w h) = onresize w h"
| "handle (WorldLoaded w h) = onWorldLoad w h"
| "handle SocketOpen = onopen"
| "handle (SocketMessage parsed) = onmessage parsed"
| "handle SocketClose = onclose"
| "handle (SocketError error) = onerror error"
| "handle (KeyDown code) = keydown code"
| "handle (KeyUp code) = keyup code"
| "handle (FrameLoaded avatarKey direction index img) = onFrameLoad avatarKey direction index img"

fun run :: "event list \<Rightarrow> client \<Rightarrow> client" where
  "run [] c = c"
| "run (e # es) c = run es (snd (handle e c))"

section \<open>Vocabulary of the properties\<close>




fun isLoadFor :: "string \<Rightarrow> effect \<Rightarrow> bool" where
  "isLoadFor k (LoadImage k' d i src) = (k' = k)"
| "isLoadFor k e = False"

definition loadsFor :: "string \<Rightarrow> client \<Rightarrow> effect list" where
  "loadsFor k c = filter (isLoadFor k) (effects c)"



text \<open>
  \<open>keepsLoads k c c'\<close>: going from \<open>c\<close> to \<open>c'\<close>, an avatar \<open>k\<close> that had begun
  loading has still begun loading and has had no further load started; and as long
  as it has not begun, no load has been started for it. \<open>view k\<close> is what this
  depends on.
\<close>

definition keepsLoads :: "string \<Rightarrow> client \<Rightarrow> client \<Rightarrow> bool" where
  "keepsLoads k c c' \<longleftrightarrow>
     (avatarImages c k \<noteq> None \<longrightarrow> avatarImages c' k \<noteq> None) \<and>
     (avatarImages c k \<noteq> None \<or> avatarImages c' k = None \<longrightarrow> loadsFor k c' = loadsFor k c)"


section \<open>Properties\<close>

subsection \<open>Sequencing\<close>

lemmas proc_defs = skip_def throw_def modify_def seq_def letv_def emit_def bnd_def








subsection \<open>What rendering and the status bar leave alone\<close>












subsection \<open>The merge of \<^verbatim>\<open>players_moved\<close>\<close>






subsection \<open>Unknown and malformed messages\<close>




subsection \<open>A rejected join\<close>

text \<open>
  C8. When a \<^verbatim>\<open>join_game\<close> response arrives whose \<^verbatim>\<open>success\<close> is false (or
  anything falsy), the handler logs the error to the console and does nothing else:
  the client afterwards differs from the client before in that one console line, so
  \<open>myPlayerId\<close>, \<open>players\<close>, \<open>avatars\<close> and \<open>avatarImages\<close> are as before and
  no image load is started.
\<close>

theorem C8_rejected_join_only_logs:
  assumes "getProp message ''action'' = Inr (JStr ''join_game'')"
    and "getProp message ''success'' = Inr success"
    and "\<not> truthy success"
    and "getProp message ''error'' = Inr err"
  shows "handleServerMessage message c =
           (None, c\<lparr>effects := effects c @ [ConsoleError ''Failed to join game:'' err]\<rparr>)"
  using assms by (simp add: handleServerMessage_def letv_def emit_def modify_def)

theorem C8_witness:
  "handleServerMessage
     (JObj [(''action'', JStr ''join_game''), (''success'', JBool False), (''error'', JStr ''server full'')])
     (newGameClient 800 600)
   = (None, (newGameClient 800 600)\<lparr>effects := effects (newGameClient 800 600) @
        [ConsoleError ''Failed to join game:'' (JStr ''server full'')]\<rparr>)"
  using C8_rejected_join_only_logs
    [of "JObj [(''action'', JStr ''join_game''), (''success'', JBool False), (''error'', JStr ''server full'')]"
        "JBool False" "JStr ''server full''" "newGameClient 800 600"]
  by simp

subsection \<open>Camera\<close>

text \<open>
  C3. When the local player is in the store with a numeric position,
  \<^verbatim>\<open>updateCamera\<close> sets, on each axis independently, the offset to the player's
  position minus half the canvas size, clamped below by 0 and above by the world
  size minus the canvas size; so whenever the world is at least as large as the
  canvas on an axis, the offset on that axis lies between 0 and the world size minus
  the canvas size.
\<close>

theorem C3_camera_clamped:
  assumes "truthy (myPlayerId c)"
    and "getAt (players c) (myPlayerId c) = Inr localPlayer"
    and "truthy localPlayer"
    and "getProp localPlayer ''x'' = Inr (JNum (Fin x))"
    and "getProp localPlayer ''y'' = Inr (JNum (Fin y))"
  shows "updateCamera c =
           (None, c\<lparr>cameraX := Fin (max 0 (min (x - of_nat (canvasWidth c) / 2) (worldWidth c - of_nat (canvasWidth c)))),
                    cameraY := Fin (max 0 (min (y - of_nat (canvasHeight c) / 2) (worldHeight c - of_nat (canvasHeight c))))\<rparr>)
       \<and> (of_nat (canvasWidth c) \<le> worldWidth c \<longrightarrow>
            nle (Fin 0) (cameraX (snd (updateCamera c))) \<and>
            nle (cameraX (snd (updateCamera c))) (Fin (worldWidth c - of_nat (canvasWidth c))))
       \<and> (of_nat (canvasHeight c) \<le> worldHeight c \<longrightarrow>
            nle (Fin 0) (cameraY (snd (updateCamera c))) \<and>
            nle (cameraY (snd (updateCamera c))) (Fin (worldHeight c - of_nat (canvasHeight c))))"
proof -
  have run: "updateCamera c =
           (None, c\<lparr>cameraX := Fin (max 0 (min (x - of_nat (canvasWidth c) / 2) (worldWidth c - of_nat (canvasWidth c)))),
                    cameraY := Fin (max 0 (min (y - of_nat (canvasHeight c) / 2) (worldHeight c - of_nat (canvasHeight c))))\<rparr>)"
    using assms by (simp add: updateCamera_def proc_defs nmax_def nmin_def max_def min_def)
  show ?thesis unfolding run by (simp add: max_def min_def)
qed

theorem C3_witness:
  "cameraX (snd (updateCamera ((newGameClient 800 600)\<lparr>worldWidth := 2000, worldHeight := 2000, myPlayerId := JStr ''p1'',
       players := JObj [(''p1'', JObj [(''x'', JNum (Fin 100)), (''y'', JNum (Fin 100))])]\<rparr>))) = Fin 0
   \<and> cameraY (snd (updateCamera ((newGameClient 800 600)\<lparr>worldWidth := 2000, worldHeight := 2000, myPlayerId := JStr ''p1'',
       players := JObj [(''p1'', JObj [(''x'', JNum (Fin 100)), (''y'', JNum (Fin 100))])]\<rparr>))) = Fin 0
   \<and> cameraX (snd (updateCamera ((newGameClient 800 600)\<lparr>worldWidth := 2000, worldHeight := 2000, myPlayerId := JStr ''p1'',
       players := JObj [(''p1'', JObj [(''x'', JNum (Fin 1900)), (''y'', JNum (Fin 1900))])]\<rparr>))) = Fin 1200
   \<and> cameraY (snd (updateCamera ((newGameClient 800 600)\<lparr>worldWidth := 2000, worldHeight := 2000, myPlayerId := JStr ''p1'',
       players := JObj [(''p1'', JObj [(''x'', JNum (Fin 1900)), (''y'', JNum (Fin 1900))])]\<rparr>))) = Fin 1400"
  using C3_camera_clamped [of "(newGameClient 800 600)\<lparr>worldWidth := 2000, worldHeight := 2000, myPlayerId := JStr ''p1'',
       players := JObj [(''p1'', JObj [(''x'', JNum (Fin 100)), (''y'', JNum (Fin 100))])]\<rparr>"
       "JObj [(''x'', JNum (Fin 100)), (''y'', JNum (Fin 100))]" 100 100]
    C3_camera_clamped [of "(newGameClient 800 600)\<lparr>worldWidth := 2000, worldHeight := 2000, myPlayerId := JStr ''p1'',
       players := JObj [(''p1'', JObj [(''x'', JNum (Fin 1900)), (''y'', JNum (Fin 1900))])]\<rparr>"
       "JObj [(''x'', JNum (Fin 1900)), (''y'', JNum (Fin 1900))]" 1900 1900]
  by (simp add: getAt_def newGameClient_def updateUI_def proc_defs)

subsection \<open>Sprites\<close>

lemma dec_0: "dec 0 = ''0''"
  by (simp add: dec.simps)

lemma toKey_0: "toKey (JNum (Fin 0)) = Inr ''0''"
  by (simp add: dec_0)

lemma frameAt_0: "frameAt (Some img # rest) ''0'' = SImage img"
  by (simp add: frameAt_def upt_conv_Cons dec_0 del: upt_Suc)

lemma drawAvatar_ready:
  assumes "getProp player ''x'' = Inr px"
    and "getProp player ''y'' = Inr py"
    and "isVisible c px py = Inr True"
    and "worldToScreen c px py = Inr screen"
    and "getProp player ''avatar'' = Inr avatarName"
    and "getAt (avatars c) avatarName = Inr avatar"
    and "truthy avatar"
    and "toKey avatarName = Inr avatarKey"
    and "avatarImages c avatarKey = Some dirs"
    and "resolveFrame dirs player = Inr (Some (img, flipHorizontal))"
  shows "drawAvatar player c = paintAvatar player screen img flipHorizontal c"
  using assms by (simp add: drawAvatar_def letv_def)


lemma paintAvatar_image:
  assumes "getProp player ''username'' = Inr username"
  shows "paintAvatar player (sx, sy) (SImage img) flipHorizontal c =
    (None, c\<lparr>effects := effects c @
       [CtxSave] @
       (if flipHorizontal
        then [CtxScaleFlip,
              DrawImage img
                (nsub (nneg (nsub sx (ndiv (Fin (avatarSize c)) (Fin 2)))) (Fin (avatarSize c)))
                (nsub sy (ndiv (Fin (avatarSize c)) (ndiv (Fin (of_nat (imgWidth img))) (Fin (of_nat (imgHeight img))))))
                (Fin (avatarSize c))
                (ndiv (Fin (avatarSize c)) (ndiv (Fin (of_nat (imgWidth img))) (Fin (of_nat (imgHeight img)))))]
        else [DrawImage img
                (nsub sx (ndiv (Fin (avatarSize c)) (Fin 2)))
                (nsub sy (ndiv (Fin (avatarSize c)) (ndiv (Fin (of_nat (imgWidth img))) (Fin (of_nat (imgHeight img))))))
                (Fin (avatarSize c))
                (ndiv (Fin (avatarSize c)) (ndiv (Fin (of_nat (imgWidth img))) (Fin (of_nat (imgHeight img)))))]) @
       [CtxRestore, SetTextStyle,
        StrokeText username sx
          (nsub (nsub sy (ndiv (Fin (avatarSize c)) (ndiv (Fin (of_nat (imgWidth img))) (Fin (of_nat (imgHeight img)))))) (Fin 5)),
        FillText username sx
          (nsub (nsub sy (ndiv (Fin (avatarSize c)) (ndiv (Fin (of_nat (imgWidth img))) (Fin (of_nat (imgHeight img)))))) (Fin 5))]\<rparr>)"
  using assms by (simp add: paintAvatar_def proc_defs Let_def)


lemma resolveFrame_falsy:
  assumes "getProp player ''animationFrame'' = Inr animationFrame"
    and "\<not> truthy animationFrame"
    and "getProp player ''facing'' = Inr facing"
    and "toKey (if facing = JStr ''west'' then JStr ''east'' else facing) = Inr direction"
    and "dirs direction = Some (Some img # rest)"
  shows "resolveFrame dirs player = Inr (Some (SImage img, facing = JStr ''west''))"
  using assms by (simp add: resolveFrame_def bnd_def jsor_def Let_def dec_0 frameAt_0)


lemma paintAvatar_draws:
  assumes "getProp player ''username'' = Inr username"
  shows "fst (paintAvatar player (sx, sy) (SImage img) flipHorizontal c) = None \<and>
         (\<exists>before dx dy dw dh after.
            effects (snd (paintAvatar player (sx, sy) (SImage img) flipHorizontal c)) =
              effects c @ before @ [DrawImage img dx dy dw dh] @ after)"
proof (cases flipHorizontal)
  case True
  have "effects (snd (paintAvatar player (sx, sy) (SImage img) flipHorizontal c)) =
        effects c @ [CtxSave, CtxScaleFlip] @
          [DrawImage img
             (nsub (nneg (nsub sx (ndiv (Fin (avatarSize c)) (Fin 2)))) (Fin (avatarSize c)))
             (nsub sy (ndiv (Fin (avatarSize c)) (ndiv (Fin (of_nat (imgWidth img))) (Fin (of_nat (imgHeight img))))))
             (Fin (avatarSize c))
             (ndiv (Fin (avatarSize c)) (ndiv (Fin (of_nat (imgWidth img))) (Fin (of_nat (imgHeight img)))))] @
          [CtxRestore, SetTextStyle,
           StrokeText username sx
             (nsub (nsub sy (ndiv (Fin (avatarSize c)) (ndiv (Fin (of_nat (imgWidth img))) (Fin (of_nat (imgHeight img)))))) (Fin 5)),
           FillText username sx
             (nsub (nsub sy (ndiv (Fin (avatarSize c)) (ndiv (Fin (of_nat (imgWidth img))) (Fin (of_nat (imgHeight img)))))) (Fin 5))]"
    using True by (simp add: paintAvatar_image [OF assms])
  then have "\<exists>before dx dy dw dh after.
            effects (snd (paintAvatar player (sx, sy) (SImage img) flipHorizontal c)) =
              effects c @ before @ [DrawImage img dx dy dw dh] @ after"
    by blast
  then show ?thesis by (simp add: paintAvatar_image [OF assms])
next
  case False
  have "effects (snd (paintAvatar player (sx, sy) (SImage img) flipHorizontal c)) =
        effects c @ [CtxSave] @
          [DrawImage img
             (nsub sx (ndiv (Fin (avatarSize c)) (Fin 2)))
             (nsub sy (ndiv (Fin (avatarSize c)) (ndiv (Fin (of_nat (imgWidth img))) (Fin (of_nat (imgHeight img))))))
             (Fin (avatarSize c))
             (ndiv (Fin (avatarSize c)) (ndiv (Fin (of_nat (imgWidth img))) (Fin (of_nat (imgHeight img)))))] @
          [CtxRestore, SetTextStyle,
           StrokeText username sx
             (nsub (nsub sy (ndiv (Fin (avatarSize c)) (ndiv (Fin (of_nat (imgWidth img))) (Fin (of_nat (imgHeight img)))))) (Fin 5)),
           FillText username sx
             (nsub (nsub sy (ndiv (Fin (avatarSize c)) (ndiv (Fin (of_nat (imgWidth img))) (Fin (of_nat (imgHeight img)))))) (Fin 5))]"
    using False by (simp add: paintAvatar_image [OF assms])
  then have "\<exists>before dx dy dw dh after.
            effects (snd (paintAvatar player (sx, sy) (SImage img) flipHorizontal c)) =
              effects c @ before @ [DrawImage img dx dy dw dh] @ after"
    by blast
  then show ?thesis by (simp add: paintAvatar_image [OF assms])
qed

text \<open>
  C4. Two players that differ only in facing west and east, at the same animation
  frame: whenever the east-facing one resolves to a loaded frame, unmirrored, the
  west-facing one resolves to the same image with \<^verbatim>\<open>flipHorizontal\<close> set.
\<close>

theorem C4_west_mirrors_east:
  assumes "getProp playerWest ''facing'' = Inr (JStr ''west'')"
    and "getProp playerEast ''facing'' = Inr (JStr ''east'')"
    and "getProp playerWest ''animationFrame'' = getProp playerEast ''animationFrame''"
    and "resolveFrame dirs playerEast = Inr (Some (SImage img, mirrored))"
  shows "\<not> mirrored \<and> resolveFrame dirs playerWest = Inr (Some (SImage img, True))"
  using assms
  by (auto simp: resolveFrame_def bnd_def Let_def split: sum.splits option.splits if_splits)

theorem C4_witness:
  "resolveFrame [''east'' \<mapsto> [Some (Image (JStr ''e0'') 32 64), Some (Image (JStr ''e1'') 32 64)]]
     (JObj [(''facing'', JStr ''west''), (''animationFrame'', JNum (Fin 1))])
   = Inr (Some (SImage (Image (JStr ''e1'') 32 64), True))"
  using C4_west_mirrors_east
    [of "JObj [(''facing'', JStr ''west''), (''animationFrame'', JNum (Fin 1))]"
        "JObj [(''facing'', JStr ''east''), (''animationFrame'', JNum (Fin 1))]"
        "[''east'' \<mapsto> [Some (Image (JStr ''e0'') 32 64), Some (Image (JStr ''e1'') 32 64)]]"
        "Image (JStr ''e1'') 32 64" False]
  by (simp add: resolveFrame_def bnd_def jsor_def frameAt_def dec.simps upt_rec)



text \<open>
  C10. A player that passes the culling, whose avatar is registered and whose
  \<^verbatim>\<open>animationFrame\<close> is absent or otherwise falsy, resolves to frame 0 of its
  direction: when that frame is loaded, \<^verbatim>\<open>drawAvatar\<close> draws it and ends normally.
\<close>

theorem C10_missing_animationFrame_draws_frame_0:
  assumes "getProp player ''animationFrame'' = Inr animationFrame"
    and "\<not> truthy animationFrame"
    and "getProp player ''x'' = Inr px"
    and "getProp player ''y'' = Inr py"
    and "isVisible c px py = Inr True"
    and "worldToScreen c px py = Inr (sx, sy)"
    and "getProp player ''avatar'' = Inr avatarName"
    and "getAt (avatars c) avatarName = Inr avatar"
    and "truthy avatar"
    and "toKey avatarName = Inr avatarKey"
    and "avatarImages c avatarKey = Some dirs"
    and "getProp player ''facing'' = Inr facing"
    and "toKey (if facing = JStr ''west'' then JStr ''east'' else facing) = Inr direction"
    and "dirs direction = Some (Some img # rest)"
  shows "resolveFrame dirs player = Inr (Some (SImage img, facing = JStr ''west''))
       \<and> drawAvatar player c = paintAvatar player (sx, sy) (SImage img) (facing = JStr ''west'') c
       \<and> fst (drawAvatar player c) = None
       \<and> (\<exists>before dx dy dw dh after.
            effects (snd (drawAvatar player c)) = effects c @ before @ [DrawImage img dx dy dw dh] @ after)"
proof -
  have frame: "resolveFrame dirs player = Inr (Some (SImage img, facing = JStr ''west''))"
    using assms(1,2,12,13,14) by (rule resolveFrame_falsy)
  have painted: "drawAvatar player c = paintAvatar player (sx, sy) (SImage img) (facing = JStr ''west'') c"
    using assms(3-11) frame by (rule drawAvatar_ready)
  obtain username where username: "getProp player ''username'' = Inr username"
    using assms(1) by (cases player) simp_all
  show ?thesis
    using paintAvatar_draws [OF username] by (simp add: frame painted)
qed

theorem C10_witness:
  "fst (drawAvatar
     (JObj [(''x'', JNum (Fin 100)), (''y'', JNum (Fin 100)), (''facing'', JStr ''west''),
            (''avatar'', JStr ''a1''), (''username'', JStr ''May'')])
     ((newGameClient 800 600)\<lparr>avatars := JObj [(''a1'', JObj [(''name'', JStr ''a1'')])],
        avatarImages := [''a1'' \<mapsto> [''east'' \<mapsto> [Some (Image (JStr ''e0'') 32 64), None]]]\<rparr>)) = None
   \<and> (\<exists>before dx dy dw dh after.
        effects (snd (drawAvatar
          (JObj [(''x'', JNum (Fin 100)), (''y'', JNum (Fin 100)), (''facing'', JStr ''west''),
                 (''avatar'', JStr ''a1''), (''username'', JStr ''May'')])
          ((newGameClient 800 600)\<lparr>avatars := JObj [(''a1'', JObj [(''name'', JStr ''a1'')])],
             avatarImages := [''a1'' \<mapsto> [''east'' \<mapsto> [Some (Image (JStr ''e0'') 32 64), None]]]\<rparr>)))
        = effects ((newGameClient 800 600)\<lparr>avatars := JObj [(''a1'', JObj [(''name'', JStr ''a1'')])],
             avatarImages := [''a1'' \<mapsto> [''east'' \<mapsto> [Some (Image (JStr ''e0'') 32 64), None]]]\<rparr>)
          @ before @ [DrawImage (Image (JStr ''e0'') 32 64) dx dy dw dh] @ after)"
proof -
  let ?player = "JObj [(''x'', JNum (Fin 100)), (''y'', JNum (Fin 100)), (''facing'', JStr ''west''),
                       (''avatar'', JStr ''a1''), (''username'', JStr ''May'')]"
  let ?c = "(newGameClient 800 600)\<lparr>avatars := JObj [(''a1'', JObj [(''name'', JStr ''a1'')])],
              avatarImages := [''a1'' \<mapsto> [''east'' \<mapsto> [Some (Image (JStr ''e0'') 32 64), None]]]\<rparr>"
  have absent: "getProp ?player ''animationFrame'' = Inr JUndefined" by simp
  have falsy: "\<not> truthy JUndefined" by simp
  have x: "getProp ?player ''x'' = Inr (JNum (Fin 100))" by simp
  have y: "getProp ?player ''y'' = Inr (JNum (Fin 100))" by simp
  have visible: "isVisible ?c (JNum (Fin 100)) (JNum (Fin 100)) = Inr True"
    by (simp add: newGameClient_def updateUI_def proc_defs isVisible_def worldToScreen_def nge_def)
  have screen: "worldToScreen ?c (JNum (Fin 100)) (JNum (Fin 100)) = Inr (Fin 100, Fin 100)"
    by (simp add: newGameClient_def updateUI_def proc_defs worldToScreen_def)
  have name: "getProp ?player ''avatar'' = Inr (JStr ''a1'')" by simp
  have avatar: "getAt (avatars ?c) (JStr ''a1'') = Inr (JObj [(''name'', JStr ''a1'')])"
    by (simp add: getAt_def)
  have registered: "truthy (JObj [(''name'', JStr ''a1'')])" by simp
  have key: "toKey (JStr ''a1'') = Inr ''a1''" by simp
  have images: "avatarImages ?c ''a1'' = Some [''east'' \<mapsto> [Some (Image (JStr ''e0'') 32 64), None]]"
    by simp
  have facing: "getProp ?player ''facing'' = Inr (JStr ''west'')" by simp
  have direction: "toKey (if JStr ''west'' = JStr ''west'' then JStr ''east'' else JStr ''west'') = Inr ''east''"
    by simp
  have frames: "[''east'' \<mapsto> [Some (Image (JStr ''e0'') 32 64), None]] ''east''
                  = Some (Some (Image (JStr ''e0'') 32 64) # [None])"
    by simp
  from C10_missing_animationFrame_draws_frame_0
         [OF absent falsy x y visible screen name avatar registered key images facing direction frames]
  show ?thesis by blast
qed

subsection \<open>Movement intents\<close>





subsection \<open>Loading an avatar once\<close>



lemma keepsLoads_same:
  "avatarImages c' k = avatarImages c k \<Longrightarrow> loadsFor k c' = loadsFor k c \<Longrightarrow> keepsLoads k c c'"
  by (simp add: keepsLoads_def)


















































end
